theory Spec2Isabelle
  imports Main
begin

section \<open>The application bootstrap (app.go)\<close>

subsection \<open>Errors, panics and call outcomes\<close>

text \<open>
  Go errors are values compared by identity. The errors that app.go itself creates are
  constructors of their own (\<open>errNilRuntime\<close>, \<open>panicError\<close>, \<open>multiError\<close>);
  every error made elsewhere (\<open>errors.New\<close> in a caller, an error of a library) is
  \<open>Foreign e\<close>. Calling a method on a nil interface raises a Go run-time error, which
  implements \<open>error\<close>; it is \<open>NilDereference\<close>.
  The type \<open>'v\<close> is the type of panic values that do not implement \<open>error\<close>.
\<close>

datatype ('e, 'v) error =
    Foreign 'e
  | errNilRuntime
  | panicError 'v
  | multiError "('e, 'v) error list"
  | NilDereference

text \<open>
  The value handed to \<open>panic\<close>: the type assertion \<open>r.(error)\<close> of
  \<open>errRecover\<close> succeeds on \<open>PanicErr\<close> and fails on \<open>PanicVal\<close>.
\<close>

datatype ('e, 'v) panic_value =
    PanicErr "('e, 'v) error"
  | PanicVal 'v

text \<open>A call either returns a value or panics.\<close>

datatype ('a, 'e, 'v) outcome =
    Return 'a
  | Panic "('e, 'v) panic_value"

type_synonym ('e, 'v) err = "('e, 'v) error option"

text \<open>
  \<open>func errRecover(err *error)\<close>, deferred in a function with the named result
  \<open>err\<close>. The argument is the outcome of the function body; the value is what the
  function returns once the deferred call has run. \<open>recover()\<close> gives nil exactly when
  the body did not panic, and then \<open>*err\<close> is left as the body set it.
\<close>

fun errRecover :: "(('e, 'v) err, 'e, 'v) outcome \<Rightarrow> ('e, 'v) err" where
  "errRecover (Return err) = err"
| "errRecover (Panic (PanicErr rerr)) = Some rerr"
| "errRecover (Panic (PanicVal r)) = Some (panicError r)"

subsection \<open>Runtimes, builders and the application\<close>

text \<open>
  \<open>Runtime\<close> has the single method \<open>Run(ctx) error\<close>. A runtime is modelled by the
  outcome its \<open>Run\<close> call has in the execution under study.
\<close>

type_synonym ('e, 'v) Runtime = "(('e, 'v) err, 'e, 'v) outcome"

text \<open>
  The global tracer provider of OpenTelemetry: \<open>Shutdown\<close> is \<open>None\<close> when the
  provider has no \<open>Shutdown(ctx) error\<close> method, and the method's outcome otherwise.
\<close>

record ('e, 'v) TracerProvider =
  Shutdown :: "(('e, 'v) err, 'e, 'v) outcome option"

text \<open>
  \<open>FinalizerFunc func() error\<close>. A finalizer runs in \<open>PostRunE\<close> and may read
  the global tracer provider, as \<open>finalizeOtel\<close> does.
\<close>

type_synonym ('e, 'v) FinalizerFunc =
  "('e, 'v) TracerProvider \<Rightarrow> (('e, 'v) err, 'e, 'v) outcome"

definition finalizeOtel :: "('e, 'v) FinalizerFunc" where
  "finalizeOtel tp = (case Shutdown tp of None \<Rightarrow> Return None | Some r \<Rightarrow> r)"

text \<open>
  \<open>BuildContext\<close>: the configuration manager (\<open>None\<close> for the zero value) and the
  list behind the \<open>finalizer\<close> pointer.
\<close>

record ('e, 'v, 'cfg) BuildContext =
  Config :: "'cfg option"
  Finalizers :: "('e, 'v) FinalizerFunc list"

text \<open>
  \<open>RegisterFinalizers\<close> appends to the shared list. A function that receives the
  build context answers with the finalizers it registered through it, in order, and
  with the outcome of the call.
\<close>

definition RegisterFinalizers ::
  "('e, 'v, 'cfg) BuildContext \<Rightarrow> ('e, 'v) FinalizerFunc list \<Rightarrow> ('e, 'v, 'cfg) BuildContext" where
  "RegisterFinalizers b f = b\<lparr>Finalizers := Finalizers b @ f\<rparr>"

record ('a, 'e, 'v) called =
  registered :: "('e, 'v) FinalizerFunc list"
  result :: "('a, 'e, 'v) outcome"

text \<open>
  \<open>Build(BuildContext) (Runtime, error)\<close>: the pair is (runtime or nil, error or nil).
  A nil builder is a builder whose call panics with \<open>NilDereference\<close>, and likewise
  for a nil initializer below.
\<close>

type_synonym ('e, 'v, 'cfg) RuntimeBuilder =
  "('e, 'v, 'cfg) BuildContext \<Rightarrow> (('e, 'v) Runtime option \<times> ('e, 'v) err, 'e, 'v) called"

text \<open>\<open>otelconfig.Initializer\<close>: the outcome of \<open>Init() (TracerProvider, error)\<close>.\<close>

type_synonym ('e, 'v) Initializer =
  "(('e, 'v) error + ('e, 'v) TracerProvider, 'e, 'v) outcome"

text \<open>
  An \<open>io.Reader\<close> as \<open>readAllAndTryClose\<close> uses it: \<open>ReadAll\<close> is the outcome
  of \<open>io.ReadAll\<close> on it (the bytes or the error), and \<open>Close\<close> is \<open>None\<close> when
  the reader is no \<open>io.ReadCloser\<close> and the outcome of its \<open>Close()\<close> otherwise.
\<close>

record ('e, 'v) Reader =
  ReadAll :: "(('e, 'v) error + string, 'e, 'v) outcome"
  Close :: "(('e, 'v) err, 'e, 'v) outcome option"

text \<open>\<open>type App struct\<close>. \<open>cfgSrc\<close> is \<open>None\<close> for a nil reader.\<close>

record ('e, 'v, 'cfg) App =
  name :: string
  cfgSrc :: "('e, 'v) Reader option"
  otelIniterFunc ::
    "('e, 'v, 'cfg) BuildContext \<Rightarrow> (('e, 'v) error + ('e, 'v) Initializer, 'e, 'v) called"
  rbs :: "('e, 'v, 'cfg) RuntimeBuilder list"

text \<open>
  The variables that the three closures of \<open>buildCmd\<close> share: the slice \<open>rs\<close>
  (made with \<open>len(app.rbs)\<close> nil entries), the build context \<open>bc\<close>, and the global
  tracer provider set by \<open>otel.SetTracerProvider\<close>.
\<close>

record ('e, 'v, 'cfg) cmd_state =
  rs :: "('e, 'v) Runtime option list"
  bc :: "('e, 'v, 'cfg) BuildContext"
  tracerProvider :: "('e, 'v) TracerProvider"

text \<open>
  \<open>readAllAndTryClose\<close>: \<open>return io.ReadAll(r)\<close> with a deferred function that
  closes the reader when it is an \<open>io.ReadCloser\<close>. The error that \<open>Close\<close>
  returns is dropped. The deferred function also runs when \<open>io.ReadAll\<close> panics; a
  panic of \<open>Close\<close> leaves the function in place of whatever \<open>io.ReadAll\<close> gave.
\<close>

definition readAllAndTryClose ::
  "('e, 'v) Reader \<Rightarrow> (('e, 'v) error + string, 'e, 'v) outcome" where
  "readAllAndTryClose r =
     (case Close r of
        None \<Rightarrow> ReadAll r
      | Some (Return err) \<Rightarrow> ReadAll r
      | Some (Panic p) \<Rightarrow> Panic p)"

subsection \<open>PreRunE\<close>

text \<open>
  The loop \<open>for i, rb := range app.rbs\<close> of \<open>PreRunE\<close>, from index \<open>i\<close> on.
  The value is the outcome of the rest of the function body with the state it leaves.
  The test \<open>r == nil\<close> holds for the nil interface value, which is \<open>None\<close>.
\<close>

fun build_loop ::
  "nat \<Rightarrow> ('e, 'v, 'cfg) RuntimeBuilder list \<Rightarrow> ('e, 'v, 'cfg) cmd_state
    \<Rightarrow> (('e, 'v) err, 'e, 'v) outcome \<times> ('e, 'v, 'cfg) cmd_state" where
  "build_loop i [] st = (Return None, st)"
| "build_loop i (rb # rest) st =
     (let c = rb (bc st);
          st1 = st\<lparr>bc := RegisterFinalizers (bc st) (registered c)\<rparr>
      in case result c of
           Panic p \<Rightarrow> (Panic p, st1)
         | Return (r, Some err) \<Rightarrow> (Return (Some err), st1)
         | Return (None, None) \<Rightarrow> (Return (Some errNilRuntime), st1)
         | Return (Some r, None) \<Rightarrow> build_loop (Suc i) rest (st1\<lparr>rs := (rs st1)[i := Some r]\<rparr>))"

text \<open>
  The part of \<open>PreRunE\<close> from \<open>app.otelIniterFunc(bc)\<close> on. \<open>config_Read\<close> of
  package config is not part of the sources at hand and is a parameter of the model.
\<close>

definition init_and_build ::
  "('e, 'v, 'cfg) App \<Rightarrow> ('e, 'v, 'cfg) cmd_state
    \<Rightarrow> (('e, 'v) err, 'e, 'v) outcome \<times> ('e, 'v, 'cfg) cmd_state" where
  "init_and_build app st =
     (let c = otelIniterFunc app (bc st);
          st1 = st\<lparr>bc := RegisterFinalizers (bc st) (registered c)\<rparr>
      in case result c of
           Panic p \<Rightarrow> (Panic p, st1)
         | Return (Inl err) \<Rightarrow> (Return (Some err), st1)
         | Return (Inr otelIniter) \<Rightarrow>
             (case otelIniter of
                Panic p \<Rightarrow> (Panic p, st1)
              | Return (Inl err) \<Rightarrow> (Return (Some err), st1)
              | Return (Inr tp) \<Rightarrow> build_loop 0 (rbs app) (st1\<lparr>tracerProvider := tp\<rparr>)))"

definition PreRunE_body ::
  "(string \<Rightarrow> (('e, 'v) error + 'cfg, 'e, 'v) outcome) \<Rightarrow> ('e, 'v, 'cfg) App
    \<Rightarrow> ('e, 'v, 'cfg) cmd_state
    \<Rightarrow> (('e, 'v) err, 'e, 'v) outcome \<times> ('e, 'v, 'cfg) cmd_state" where
  "PreRunE_body config_Read app st =
     (case cfgSrc app of
        None \<Rightarrow> init_and_build app st
      | Some src \<Rightarrow>
          (case readAllAndTryClose src of
             Panic p \<Rightarrow> (Panic p, st)
           | Return (Inl err) \<Rightarrow> (Return (Some err), st)
           | Return (Inr b) \<Rightarrow>
               (case config_Read b of
                  Panic p \<Rightarrow> (Panic p, st)
                | Return (Inl err) \<Rightarrow> (Return (Some err), st)
                | Return (Inr m) \<Rightarrow> init_and_build app (st\<lparr>bc := (bc st)\<lparr>Config := Some m\<rparr>\<rparr>))))"

text \<open>\<open>PreRunE\<close> with its deferred \<open>errRecover(&err)\<close>.\<close>

definition PreRunE ::
  "(string \<Rightarrow> (('e, 'v) error + 'cfg, 'e, 'v) outcome) \<Rightarrow> ('e, 'v, 'cfg) App
    \<Rightarrow> ('e, 'v, 'cfg) cmd_state \<Rightarrow> ('e, 'v) err \<times> ('e, 'v, 'cfg) cmd_state" where
  "PreRunE config_Read app st =
     (let (out, st1) = PreRunE_body config_Read app st in (errRecover out, st1))"

subsection \<open>RunE\<close>

text \<open>
  Calling \<open>Run\<close> on an entry of \<open>rs\<close>; on a nil entry the call is a nil dereference,
  a run-time panic whose value is an error.
\<close>

definition call_Run :: "('e, 'v) Runtime option \<Rightarrow> (('e, 'v) err, 'e, 'v) outcome" where
  "call_Run rt = (case rt of None \<Rightarrow> Panic (PanicErr NilDereference) | Some run \<Rightarrow> run)"

text \<open>
  \<open>errgroup.Group\<close>: \<open>Wait\<close> returns the first non-nil error that a goroutine of
  the group returned, first in time. \<open>order\<close> lists the goroutines (by index into
  \<open>rs\<close>) in the order in which they return; it is the scheduler's choice and a
  parameter of the model.
\<close>

fun errgroup_Wait :: "nat list \<Rightarrow> ('e, 'v) err list \<Rightarrow> ('e, 'v) err" where
  "errgroup_Wait [] es = None"
| "errgroup_Wait (i # order) es =
     (case (if i < length es then es ! i else None) of
        Some e \<Rightarrow> Some e
      | None \<Rightarrow> errgroup_Wait order es)"

text \<open>
  \<open>RunE\<close>. With two or more runtimes each goroutine runs
  \<open>func() (e error) { defer errRecover(&e); return rt.Run(gctx) }\<close>.
  The second component lists the indices of the runtimes whose \<open>Run\<close> was called.
\<close>

definition RunE_body ::
  "nat list \<Rightarrow> ('e, 'v) Runtime option list \<Rightarrow> (('e, 'v) err, 'e, 'v) outcome \<times> nat list" where
  "RunE_body order rts =
     (if length rts = 0 then (Return None, [])
      else if length rts = 1 then (call_Run (rts ! 0), [0])
      else (Return (errgroup_Wait order (map (\<lambda>rt. errRecover (call_Run rt)) rts)),
            [0..<length rts]))"

definition RunE :: "nat list \<Rightarrow> ('e, 'v) Runtime option list \<Rightarrow> ('e, 'v) err \<times> nat list" where
  "RunE order rts = (let (out, called) = RunE_body order rts in (errRecover out, called))"

subsection \<open>PostRunE\<close>

text \<open>
  The loop over \<open>bc.finalizer.Finalizers\<close>, collecting the non-nil errors in
  \<open>me.errors\<close>. \<open>PostRunE\<close> defers no \<open>errRecover\<close>: a panic of a finalizer
  leaves the function.
\<close>

fun run_finalizers ::
  "('e, 'v) TracerProvider \<Rightarrow> ('e, 'v) FinalizerFunc list \<Rightarrow> ('e, 'v) error list
    \<Rightarrow> (('e, 'v) error list, 'e, 'v) outcome" where
  "run_finalizers tp [] errors = Return errors"
| "run_finalizers tp (f # fs) errors =
     (case f tp of
        Panic p \<Rightarrow> Panic p
      | Return None \<Rightarrow> run_finalizers tp fs errors
      | Return (Some err) \<Rightarrow> run_finalizers tp fs (errors @ [err]))"

definition PostRunE :: "('e, 'v, 'cfg) cmd_state \<Rightarrow> (('e, 'v) err, 'e, 'v) outcome" where
  "PostRunE st =
     (case run_finalizers (tracerProvider st) (Finalizers (bc st)) [] of
        Panic p \<Rightarrow> Panic p
      | Return errors \<Rightarrow> if length errors = 0 then Return None else Return (Some (multiError errors)))"

subsection \<open>buildCmd and App.Run\<close>

text \<open>
  The state in which \<open>buildCmd\<close> leaves the shared variables. The global tracer
  provider before \<open>PreRunE\<close> is OpenTelemetry's default, which has no \<open>Shutdown\<close>.
\<close>

definition buildCmd :: "('e, 'v, 'cfg) App \<Rightarrow> ('e, 'v, 'cfg) cmd_state" where
  "buildCmd app =
     \<lparr>rs = replicate (length (rbs app)) None,
      bc = \<lparr>Config = None, Finalizers = [finalizeOtel]\<rparr>,
      tracerProvider = \<lparr>Shutdown = None\<rparr>\<rparr>"

text \<open>
  What \<open>App.Run\<close> gives: the error it returns or the panic that leaves it, and the
  indices of the runtimes whose \<open>Run\<close> was called.
\<close>

record ('e, 'v) ran =
  returned :: "(('e, 'v) err, 'e, 'v) outcome"
  invoked :: "nat list"

text \<open>
  \<open>App.Run\<close>: \<open>cmd.ExecuteContext(ctx)\<close> on the command of \<open>buildCmd\<close>.
  cobra's \<open>ExecuteContext\<close> is a library function. The model covers the executions
  in which it gets to the hooks (arguments without flags; the tests pass none): it
  calls \<open>PreRunE\<close>, \<open>RunE\<close> and \<open>PostRunE\<close> in this order and returns the first
  non-nil error, skipping the hooks after it. An error that cobra takes for a request
  for help (\<open>flag.ErrHelp\<close>) is outside the model.
\<close>

definition App_Run ::
  "(string \<Rightarrow> (('e, 'v) error + 'cfg, 'e, 'v) outcome) \<Rightarrow> nat list \<Rightarrow> ('e, 'v, 'cfg) App
    \<Rightarrow> ('e, 'v) ran" where
  "App_Run config_Read order app =
     (case PreRunE config_Read app (buildCmd app) of
        (Some err, st) \<Rightarrow> \<lparr>returned = Return (Some err), invoked = []\<rparr>
      | (None, st) \<Rightarrow>
          (case RunE order (rs st) of
             (Some err, called) \<Rightarrow> \<lparr>returned = Return (Some err), invoked = called\<rparr>
           | (None, called) \<Rightarrow> \<lparr>returned = PostRunE st, invoked = called\<rparr>))"

subsection \<open>Options and New\<close>

text \<open>\<open>type Option func(*App)\<close> and the options of app.go.\<close>

type_synonym ('e, 'v, 'cfg) Option = "('e, 'v, 'cfg) App \<Rightarrow> ('e, 'v, 'cfg) App"

definition Name :: "string \<Rightarrow> ('e, 'v, 'cfg) Option" where
  "Name n a = a\<lparr>name := n\<rparr>"

definition WithRuntimeBuilder :: "('e, 'v, 'cfg) RuntimeBuilder \<Rightarrow> ('e, 'v, 'cfg) Option" where
  "WithRuntimeBuilder rb a = a\<lparr>rbs := rbs a @ [rb]\<rparr>"

definition WithRuntimeBuilderFunc :: "('e, 'v, 'cfg) RuntimeBuilder \<Rightarrow> ('e, 'v, 'cfg) Option" where
  "WithRuntimeBuilderFunc f a = a\<lparr>rbs := rbs a @ [f]\<rparr>"

definition Config_opt :: "('e, 'v) Reader \<Rightarrow> ('e, 'v, 'cfg) Option" where
  "Config_opt r a = a\<lparr>cfgSrc := Some r\<rparr>"

definition InitTracerProvider ::
  "(('e, 'v, 'cfg) BuildContext \<Rightarrow> (('e, 'v) error + ('e, 'v) Initializer, 'e, 'v) called)
    \<Rightarrow> ('e, 'v, 'cfg) Option" where
  "InitTracerProvider f a = a\<lparr>otelIniterFunc := f\<rparr>"

text \<open>
  \<open>New\<close>. \<open>args0\<close> is \<open>os.Args[0]\<close> (the empty string when \<open>os.Args\<close> is empty).
  \<open>otelconfig.Noop\<close> is not part of the sources at hand and is the parameter \<open>Noop\<close>.
\<close>

definition New ::
  "('e, 'v) Initializer \<Rightarrow> string \<Rightarrow> ('e, 'v, 'cfg) Option list \<Rightarrow> ('e, 'v, 'cfg) App" where
  "New Noop args0 opts =
     fold (\<lambda>opt app. opt app) opts
       \<lparr>name = args0, cfgSrc = None,
        otelIniterFunc = (\<lambda>_. \<lparr>registered = [], result = Return (Inr Noop)\<rparr>),
        rbs = []\<rparr>"

subsection \<open>The applications of TestApp_Run\<close>

text \<open>
  The fixtures of the tests, with errors made by \<open>errors.New\<close> numbered, strings as
  the panic values that are no errors, and no configuration. The no-op initializer
  gives a tracer provider without \<open>Shutdown\<close>.
\<close>

type_synonym test_app = "(nat, string, unit) App"

definition test_Noop :: "(nat, string) Initializer" where
  "test_Noop = Return (Inr \<lparr>Shutdown = None\<rparr>)"

definition test_config_Read :: "string \<Rightarrow> ((nat, string) error + unit, nat, string) outcome" where
  "test_config_Read b = Return (Inr ())"

definition builder_of ::
  "((nat, string) Runtime option \<times> (nat, string) err, nat, string) outcome
    \<Rightarrow> (nat, string, unit) RuntimeBuilder" where
  "builder_of r = (\<lambda>_. \<lparr>registered = [], result = r\<rparr>)"

text \<open>"if the runtime builder returns a nil runtime"\<close>

definition app_nil_runtime :: test_app where
  "app_nil_runtime =
     New test_Noop ''app'' [WithRuntimeBuilderFunc (builder_of (Return (None, None)))]"

text \<open>"if the runtime builder panics with a non-error" and "... with an error"\<close>

definition app_builder_panics_value :: test_app where
  "app_builder_panics_value =
     New test_Noop ''app'' [WithRuntimeBuilderFunc (builder_of (Panic (PanicVal ''hello'')))]"

definition app_builder_panics_error :: test_app where
  "app_builder_panics_error =
     New test_Noop ''app'' [WithRuntimeBuilderFunc (builder_of (Panic (PanicErr (Foreign 1))))]"

text \<open>"if the runtime run method panics"\<close>

definition app_run_panics :: test_app where
  "app_run_panics =
     New test_Noop ''app''
       [WithRuntimeBuilderFunc (builder_of (Return (Some (Panic (PanicErr (Foreign 1))), None)))]"

text \<open>
  "if one of the runtimes run methods panics": the second runtime waits for the
  context to be done and returns nil.
\<close>

definition app_one_of_two_panics :: test_app where
  "app_one_of_two_panics =
     New test_Noop ''app''
       [WithRuntimeBuilderFunc (builder_of (Return (Some (Panic (PanicErr (Foreign 1))), None))),
        WithRuntimeBuilderFunc (builder_of (Return (Some (Return None), None)))]"

text \<open>Two runtimes that panic with different errors.\<close>

definition app_both_panic :: test_app where
  "app_both_panic =
     New test_Noop ''app''
       [WithRuntimeBuilderFunc (builder_of (Return (Some (Panic (PanicErr (Foreign 1))), None))),
        WithRuntimeBuilderFunc (builder_of (Return (Some (Panic (PanicErr (Foreign 2))), None)))]"

text \<open>
  "if one of the runtimes run methods returns an error": the second runtime waits for
  the context to be done and returns nil.
\<close>

definition app_one_of_two_fails :: test_app where
  "app_one_of_two_fails =
     New test_Noop ''app''
       [WithRuntimeBuilderFunc (builder_of (Return (Some (Return (Some (Foreign 1))), None))),
        WithRuntimeBuilderFunc (builder_of (Return (Some (Return None), None)))]"

section \<open>The Sequential runtime of package queue\<close>

text \<open>
  Of package queue the sources hold the example tests only
  (\<^verbatim>\<open>queue/queue_example_test.go\<close>); the runtime itself is modelled from
  section 4.1 of the specification. Consumers and processors are Go closures over variables of the
  test and over the \<open>cancel\<close> function of the context, so the model runs them on an
  explicit world \<open>'s\<close> that holds those variables and the state of the context.
\<close>

subsection \<open>Capabilities\<close>

text \<open>
  Modelled from the spec: the Consumer capability \<open>Consume(ctx) -> (T, error)\<close>,
  whose interface declaration is missing. A call returns an item (\<open>Inr\<close>) or an
  error (\<open>Inl\<close>) and changes the world.
\<close>

type_synonym ('t, 'e, 's) Consumer = "'s \<Rightarrow> ('e + 't) \<times> 's"

text \<open>
  Modelled from the spec: the Processor capability \<open>Process(ctx, T) -> error\<close>,
  whose interface declaration is missing. A call returns nil (\<open>None\<close>) or an error
  and changes the world.
\<close>

type_synonym ('t, 'e, 's) Processor = "'t \<Rightarrow> 's \<Rightarrow> 'e option \<times> 's"

text \<open>
  The cancellable context handed to \<open>Run\<close>: \<open>ctx s\<close> holds when the context is
  cancelled in world \<open>s\<close>.
\<close>

type_synonym 's Context = "'s \<Rightarrow> bool"

text \<open>
  \<open>consumerFunc\<close> and \<open>processorFunc\<close> of the example tests: a function used as
  a consumer or a processor.
\<close>

definition consumerFunc :: "('s \<Rightarrow> ('e + 't) \<times> 's) \<Rightarrow> ('t, 'e, 's) Consumer" where
  "consumerFunc f = f"

definition processorFunc :: "('t \<Rightarrow> 's \<Rightarrow> 'e option \<times> 's) \<Rightarrow> ('t, 'e, 's) Processor" where
  "processorFunc f = f"

subsection \<open>The runtime\<close>

text \<open>
  Modelled from the spec: the Sequential runtime, missing from the sources. It owns the
  Consumer and the Processor; \<open>isCancellation\<close> tells the errors of the designated
  cancellation kind from the others.
\<close>

record ('t, 'e, 's) SequentialRuntime =
  consumer :: "('t, 'e, 's) Consumer"
  processor :: "('t, 'e, 's) Processor"
  isCancellation :: "'e \<Rightarrow> bool"

text \<open>
  Modelled from the spec: the constructor \<open>Sequential(c, p, opts...)\<close>, missing from
  the sources. The log sink is the one option of this runtime and takes no part in the
  control flow; the model leaves it out.
\<close>

definition Sequential ::
  "('e \<Rightarrow> bool) \<Rightarrow> ('t, 'e, 's) Consumer \<Rightarrow> ('t, 'e, 's) Processor
    \<Rightarrow> ('t, 'e, 's) SequentialRuntime" where
  "Sequential isCancel c p =
     \<lparr>consumer = c, processor = p, isCancellation = isCancel\<rparr>"

text \<open>
  The calls that a run makes, in the order in which they return: \<open>Consumed r\<close> is a
  \<open>Consume\<close> call that returned \<open>r\<close>, \<open>Processed x r\<close> a \<open>Process\<close> call on
  item \<open>x\<close> that returned \<open>r\<close>. This is also what the run logs, one event for each
  call.
\<close>

datatype ('t, 'e) call =
    Consumed "'e + 't"
  | Processed 't "'e option"

text \<open>
  What a run that returns leaves: the terminal error (\<open>None\<close> for nil), the world,
  and the calls it made.
\<close>

record ('t, 'e, 's) finished =
  terminal :: "'e option"
  world :: 's
  calls :: "('t, 'e) call list"

definition after_calls ::
  "('t, 'e) call list \<Rightarrow> ('t, 'e, 's) finished \<Rightarrow> ('t, 'e, 's) finished" where
  "after_calls cs f = f\<lparr>calls := cs @ calls f\<rparr>"

text \<open>
  Modelled from the spec: \<open>Run\<close> of the Sequential runtime, missing from the sources.
  Section 4.1: on each iteration check for cancellation first and, if the context is
  cancelled, return nil; otherwise call Consume; on a cancellation-class error return
  nil, on any other error return that error; on an item call Process with it and
  return its error if it gives one; then loop.
  The loop need not end (a consumer may produce for ever while nothing is cancelled),
  so the function takes fuel, one unit for each iteration: \<open>None\<close> says that the run
  has not returned within that many iterations.
\<close>

fun Sequential_Run ::
  "nat \<Rightarrow> ('t, 'e, 's) SequentialRuntime \<Rightarrow> 's Context \<Rightarrow> 's
    \<Rightarrow> ('t, 'e, 's) finished option" where
  "Sequential_Run 0 rt ctx s = None"
| "Sequential_Run (Suc fuel) rt ctx s =
     (if ctx s then Some \<lparr>terminal = None, world = s, calls = []\<rparr>
      else case consumer rt s of
        (Inl err, s1) \<Rightarrow>
          if isCancellation rt err
          then Some \<lparr>terminal = None, world = s1, calls = [Consumed (Inl err)]\<rparr>
          else Some \<lparr>terminal = Some err, world = s1, calls = [Consumed (Inl err)]\<rparr>
      | (Inr item, s1) \<Rightarrow>
          (case processor rt item s1 of
             (Some err, s2) \<Rightarrow>
               Some \<lparr>terminal = Some err, world = s2,
                     calls = [Consumed (Inr item), Processed item (Some err)]\<rparr>
           | (None, s2) \<Rightarrow>
               map_option (after_calls [Consumed (Inr item), Processed item None])
                 (Sequential_Run fuel rt ctx s2)))"

subsection \<open>Reading the calls of a run\<close>

text \<open>The items that the consumer produced and the items handed to \<open>Process\<close>, in order.\<close>

fun consumed :: "('t, 'e) call list \<Rightarrow> 't list" where
  "consumed [] = []"
| "consumed (Consumed (Inr x) # cs) = x # consumed cs"
| "consumed (_ # cs) = consumed cs"

fun processed :: "('t, 'e) call list \<Rightarrow> 't list" where
  "processed [] = []"
| "processed (Processed x r # cs) = x # processed cs"
| "processed (_ # cs) = processed cs"

text \<open>
  A list of calls is one at a time and in order when every produced item is handed to
  \<open>Process\<close> by the very next call, the next \<open>Consume\<close> call comes only after that
  \<open>Process\<close> call returned nil, and an error ends the list.
\<close>

fun one_at_a_time :: "('t, 'e) call list \<Rightarrow> bool" where
  "one_at_a_time [] = True"
| "one_at_a_time [Consumed (Inl err)] = True"
| "one_at_a_time (Consumed (Inr x) # Processed y None # cs) = (x = y \<and> one_at_a_time cs)"
| "one_at_a_time [Consumed (Inr x), Processed y (Some err)] = (x = y)"
| "one_at_a_time _ = False"

subsection \<open>A consumer that produces a finite sequence\<close>

text \<open>
  The Consumer of scenario A of the specification, for any sequence: it produces the
  items of a list one after the other and answers every later call with the
  error \<open>eos\<close>. The world is the list of the items still to come together with the
  world \<open>'w\<close> of the processor and of the context.
\<close>

definition from_list :: "'e \<Rightarrow> ('t, 'e, 't list \<times> 'w) Consumer" where
  "from_list eos s =
     (case fst s of
        [] \<Rightarrow> (Inl eos, s)
      | x # xs \<Rightarrow> (Inr x, (xs, snd s)))"

text \<open>A processor that works on its own part of that world.\<close>

definition on_world :: "('t \<Rightarrow> 'w \<Rightarrow> 'e option \<times> 'w) \<Rightarrow> ('t, 'e, 't list \<times> 'w) Processor" where
  "on_world f x s = (case f x (snd s) of (r, w) \<Rightarrow> (r, (fst s, w)))"

text \<open>
  Scenario A: the processor prints each value and returns nil; the world of the
  processor is the list of the lines printed so far.
\<close>

definition println :: "int \<Rightarrow> int list \<Rightarrow> string option \<times> int list" where
  "println x out = (None, out @ [x])"

definition context_Canceled :: string where
  "context_Canceled = ''context canceled''"

definition scenario_A :: "(int, string, int list \<times> int list) SequentialRuntime" where
  "scenario_A =
     Sequential (\<lambda>err. err = context_Canceled) (from_list context_Canceled) (on_world println)"

subsection \<open>ExampleSequential\<close>

text \<open>
  The variables of the example test ExampleSequential: the counter \<open>n\<close> of the
  consumer, whether \<open>cancel()\<close> was called on the context, and the lines printed.
  The counter is a Go \<open>int\<close>; the example counts to six, far from where it would wrap.
\<close>

record example_world =
  n :: int
  cancelled :: bool
  printed :: "int list"

text \<open>\<open>c\<close>: \<open>n += 1; return n, nil\<close>.\<close>

definition example_c :: "(int, string, example_world) Consumer" where
  "example_c = consumerFunc (\<lambda>s. (Inr (n s + 1), s\<lparr>n := n s + 1\<rparr>))"

text \<open>\<open>p\<close>: \<open>if n > 5 { cancel(); return nil }; fmt.Println(n); return nil\<close>.\<close>

definition example_p :: "(int, string, example_world) Processor" where
  "example_p = processorFunc (\<lambda>x s.
     if x > 5 then (None, s\<lparr>cancelled := True\<rparr>)
     else (None, s\<lparr>printed := printed s @ [x]\<rparr>))"

definition example_rt :: "(int, string, example_world) SequentialRuntime" where
  "example_rt = Sequential (\<lambda>err. err = context_Canceled) example_c example_p"

definition example_start :: example_world where
  "example_start = \<lparr>n = 0, cancelled = False, printed = []\<rparr>"




section \<open>Properties of the application bootstrap\<close>

lemma build_loop_append:
  "build_loop i (pre @ post) st =
     (case build_loop i pre st of
        (Return None, st1) \<Rightarrow> build_loop (i + length pre) post st1
      | other \<Rightarrow> other)"
proof (induction pre arbitrary: i st)
  case Nil
  show ?case by simp
next
  case (Cons rb pre)
  show ?case
    by (simp add: Let_def Cons.IH split: outcome.split prod.split option.split)
qed

text \<open>
  If the body of \<open>PreRunE\<close> runs through with the builders \<open>pre\<close> only, then with
  more builders after them it goes on with the loop from the state reached there.
\<close>

lemma init_and_build_split:
  assumes "rbs app = pre @ post"
    and "init_and_build (app\<lparr>rbs := pre\<rparr>) st0 = (Return None, st)"
  shows "init_and_build app st0 = build_loop (length pre) post st"
  using assms
  by (auto simp: init_and_build_def Let_def build_loop_append
           split: outcome.splits sum.splits)

lemma PreRunE_body_split:
  assumes "rbs app = pre @ post"
    and "PreRunE_body config_Read (app\<lparr>rbs := pre\<rparr>) st0 = (Return None, st)"
  shows "PreRunE_body config_Read app st0 = build_loop (length pre) post st"
  using assms
  by (auto simp: PreRunE_body_def init_and_build_split
           split: option.splits outcome.splits sum.splits)

subsection \<open>Recovered panics\<close>

lemma errgroup_Wait_first:
  assumes "i < length es" and "es ! i = Some e"
    and "\<forall>j\<in>set before. j < length es \<longrightarrow> es ! j = None"
  shows "errgroup_Wait (before @ i # after) es = Some e"
  using assms by (induction before) auto

lemma errgroup_Wait_some:
  assumes "i < length es" and "es ! i = Some e" and "i \<in> set order"
  shows "\<exists>e'. errgroup_Wait order es = Some e'"
  using assms by (induction order) (auto split: option.split)

lemma builder_panic_recovered:
  assumes "rbs app = pre @ rb # post"
    and "PreRunE_body config_Read (app\<lparr>rbs := pre\<rparr>) (buildCmd app) = (Return None, st)"
    and "result (rb (bc st)) = Panic p"
  shows "App_Run config_Read order app =
           \<lparr>returned = Return (errRecover (Panic p)), invoked = []\<rparr>"
proof -
  have "PreRunE_body config_Read app (buildCmd app) = build_loop (length pre) (rb # post) st"
    using assms(1,2) by (rule PreRunE_body_split)
  moreover have "fst (build_loop (length pre) (rb # post) st) = Panic p"
    using assms(3) by (simp add: Let_def)
  ultimately obtain st1 where
    "PreRunE_body config_Read app (buildCmd app) = (Panic p, st1)"
    by (metis prod.collapse)
  then have "PreRunE config_Read app (buildCmd app) = (errRecover (Panic p), st1)"
    by (simp add: PreRunE_def)
  then show ?thesis
    by (cases p) (simp_all add: App_Run_def)
qed

lemma single_run_panic_recovered:
  assumes "PreRunE config_Read app (buildCmd app) = (None, st)"
    and "rs st = [Some (Panic p)]"
  shows "App_Run config_Read order app =
           \<lparr>returned = Return (errRecover (Panic p)), invoked = [0]\<rparr>"
  using assms
  by (cases p) (simp_all add: App_Run_def RunE_def RunE_body_def call_Run_def)

lemma concurrent_run_panic_recovered:
  assumes "PreRunE config_Read app (buildCmd app) = (None, st)"
    and "2 \<le> length (rs st)" and "i < length (rs st)"
    and "rs st ! i = Some (Panic p)"
  shows "i \<in> set order \<Longrightarrow> \<exists>e. returned (App_Run config_Read order app) = Return (Some e)"
    and "order = before @ i # after \<Longrightarrow>
         \<forall>j\<in>set before. j < length (rs st) \<longrightarrow> errRecover (call_Run (rs st ! j)) = None \<Longrightarrow>
         returned (App_Run config_Read order app) = Return (errRecover (Panic p))"
proof -
  let ?es = "map (\<lambda>rt. errRecover (call_Run rt)) (rs st)"
  have run: "RunE order (rs st) = (errgroup_Wait order ?es, [0..<length (rs st)])"
    using assms(2) by (auto simp: RunE_def RunE_body_def)
  obtain e where e: "errRecover (Panic p) = Some e"
    by (cases p) simp_all
  have ei: "?es ! i = Some e"
    using assms(3,4) e by (simp add: call_Run_def)
  {
    assume "i \<in> set order"
    then obtain e' where "errgroup_Wait order ?es = Some e'"
      using errgroup_Wait_some [of i ?es e order] assms(3) ei by auto
    then show "\<exists>e. returned (App_Run config_Read order app) = Return (Some e)"
      using assms(1) run by (simp add: App_Run_def)
  }
  {
    assume "order = before @ i # after"
      and "\<forall>j\<in>set before. j < length (rs st) \<longrightarrow> errRecover (call_Run (rs st ! j)) = None"
    then have "errgroup_Wait order ?es = Some e"
      using errgroup_Wait_first [of i ?es e before after] assms(3) ei by auto
    then show "returned (App_Run config_Read order app) = Return (errRecover (Panic p))"
      using assms(1) run e by (simp add: App_Run_def)
  }
qed

lemma concurrent_first_failure_returned:
  assumes "PreRunE config_Read app (buildCmd app) = (None, st)"
    and "2 \<le> length (rs st)" and "i < length (rs st)"
    and "errRecover (call_Run (rs st ! i)) = Some e"
    and "order = before @ i # after"
    and "\<forall>j\<in>set before. j < length (rs st) \<longrightarrow> errRecover (call_Run (rs st ! j)) = None"
  shows "returned (App_Run config_Read order app) = Return (Some e)"
proof -
  let ?es = "map (\<lambda>rt. errRecover (call_Run rt)) (rs st)"
  have run: "RunE order (rs st) = (errgroup_Wait order ?es, [0..<length (rs st)])"
    using assms(2) by (auto simp: RunE_def RunE_body_def)
  have "?es ! i = Some e"
    using assms(3,4) by simp
  then have "errgroup_Wait order ?es = Some e"
    using errgroup_Wait_first [of i ?es e before after] assms(3,5,6) by auto
  then show ?thesis
    using assms(1) run by (simp add: App_Run_def)
qed

subsection \<open>The claims on App.Run\<close>

text \<open>
  C10. When the builders before it have built their runtimes without error and a
  runtime builder then returns a nil runtime together with a nil error, \<open>App.Run\<close>
  returns \<open>errNilRuntime\<close>, and \<open>Run\<close> is called on no runtime.
  The second hypothesis says that the builder is reached: the body of \<open>PreRunE\<close>,
  run with the builders before it only, gets to the end in state \<open>st\<close>.
\<close>

theorem nil_runtime_gives_errNilRuntime:
  assumes "rbs app = pre @ rb # post"
    and "PreRunE_body config_Read (app\<lparr>rbs := pre\<rparr>) (buildCmd app) = (Return None, st)"
    and "result (rb (bc st)) = Return (None, None)"
  shows "App_Run config_Read order app =
           \<lparr>returned = Return (Some errNilRuntime), invoked = []\<rparr>"
proof -
  have "PreRunE_body config_Read app (buildCmd app) = build_loop (length pre) (rb # post) st"
    using assms(1,2) by (rule PreRunE_body_split)
  moreover have "fst (build_loop (length pre) (rb # post) st) = Return (Some errNilRuntime)"
    using assms(3) by (simp add: Let_def)
  ultimately obtain st1 where
    "PreRunE_body config_Read app (buildCmd app) = (Return (Some errNilRuntime), st1)"
    by (metis prod.collapse)
  then have "PreRunE config_Read app (buildCmd app) = (Some errNilRuntime, st1)"
    by (simp add: PreRunE_def)
  then show ?thesis
    by (simp add: App_Run_def)
qed

theorem nil_runtime_gives_errNilRuntime_witness:
  "rbs app_nil_runtime = [] @ builder_of (Return (None, None)) # []
   \<and> PreRunE_body test_config_Read (app_nil_runtime\<lparr>rbs := []\<rparr>) (buildCmd app_nil_runtime)
       = (Return None,
          \<lparr>rs = [None], bc = \<lparr>Config = None, Finalizers = [finalizeOtel]\<rparr>,
           tracerProvider = \<lparr>Shutdown = None\<rparr>\<rparr>)
   \<and> result (builder_of (Return (None, None)) \<lparr>Config = None, Finalizers = [finalizeOtel]\<rparr>)
       = Return (None, None)
   \<and> App_Run test_config_Read [] app_nil_runtime
       = \<lparr>returned = Return (Some errNilRuntime), invoked = []\<rparr>"
proof -
  let ?st = "\<lparr>rs = [None], bc = \<lparr>Config = None, Finalizers = [finalizeOtel]\<rparr>,
              tracerProvider = \<lparr>Shutdown = None\<rparr>\<rparr> :: (nat, string, unit) cmd_state"
  have h1: "rbs app_nil_runtime = [] @ builder_of (Return (None, None)) # []"
    by (simp add: app_nil_runtime_def New_def WithRuntimeBuilderFunc_def)
  have h2: "PreRunE_body test_config_Read (app_nil_runtime\<lparr>rbs := []\<rparr>)
              (buildCmd app_nil_runtime) = (Return None, ?st)"
    by (simp add: PreRunE_body_def init_and_build_def app_nil_runtime_def New_def
        WithRuntimeBuilderFunc_def buildCmd_def test_Noop_def RegisterFinalizers_def)
  have h3: "result (builder_of (Return (None, None)) (bc ?st)) = Return (None, None)"
    by (simp add: builder_of_def)
  show ?thesis
    using h1 h2 h3 nil_runtime_gives_errNilRuntime [OF h1 h2 h3, of "[]"]
    by simp
qed

text \<open>
  C9, amended. A panic raised by a runtime builder or by \<open>Run\<close> is recovered:
  \<open>App.Run\<close> returns an error and does not panic.
  (1) When a runtime builder that is reached panics, \<open>App.Run\<close> returns the panic
  value itself if it is an error and \<open>panicError\<close> of it otherwise.
  (2) The same holds when the only runtime of the application panics in \<open>Run\<close>.
  (3) With two or more runtimes, a panic of a runtime makes \<open>App.Run\<close> return some
  non-nil error.
  (4) That error is the recovered panic value when every runtime that returned before
  the panicking one (those in \<open>before\<close>) returned nil; otherwise the error group keeps
  the error of the first runtime that failed.
  (5) In general, with two or more runtimes \<open>App.Run\<close> returns the error of the
  first runtime to fail, by an error it returns or by a panic.
\<close>

theorem panic_is_recovered:
  "(rbs app = pre @ rb # post
      \<and> PreRunE_body config_Read (app\<lparr>rbs := pre\<rparr>) (buildCmd app) = (Return None, st0)
      \<and> result (rb (bc st0)) = Panic p
    \<longrightarrow> App_Run config_Read order app =
          \<lparr>returned = Return (Some (case p of PanicErr rerr \<Rightarrow> rerr | PanicVal v \<Rightarrow> panicError v)),
           invoked = []\<rparr>)
   \<and> (PreRunE config_Read app (buildCmd app) = (None, st) \<and> rs st = [Some (Panic p)]
    \<longrightarrow> App_Run config_Read order app =
          \<lparr>returned = Return (Some (case p of PanicErr rerr \<Rightarrow> rerr | PanicVal v \<Rightarrow> panicError v)),
           invoked = [0]\<rparr>)
   \<and> (PreRunE config_Read app (buildCmd app) = (None, st) \<and> 2 \<le> length (rs st)
      \<and> i < length (rs st) \<and> rs st ! i = Some (Panic p) \<and> i \<in> set order
    \<longrightarrow> (\<exists>e. returned (App_Run config_Read order app) = Return (Some e)))
   \<and> (PreRunE config_Read app (buildCmd app) = (None, st) \<and> 2 \<le> length (rs st)
      \<and> i < length (rs st) \<and> rs st ! i = Some (Panic p) \<and> order = before @ i # after
      \<and> (\<forall>j\<in>set before. j < length (rs st) \<longrightarrow> errRecover (call_Run (rs st ! j)) = None)
    \<longrightarrow> returned (App_Run config_Read order app) =
          Return (Some (case p of PanicErr rerr \<Rightarrow> rerr | PanicVal v \<Rightarrow> panicError v)))
   \<and> (PreRunE config_Read app (buildCmd app) = (None, st) \<and> 2 \<le> length (rs st)
      \<and> i < length (rs st) \<and> errRecover (call_Run (rs st ! i)) = Some e
      \<and> order = before @ i # after
      \<and> (\<forall>j\<in>set before. j < length (rs st) \<longrightarrow> errRecover (call_Run (rs st ! j)) = None)
    \<longrightarrow> returned (App_Run config_Read order app) = Return (Some e))"
proof -
  have rec: "errRecover (Panic p) =
               Some (case p of PanicErr rerr \<Rightarrow> rerr | PanicVal v \<Rightarrow> panicError v)"
    by (cases p) simp_all
  show ?thesis
    using builder_panic_recovered [of app pre rb post config_Read st0 p order]
      single_run_panic_recovered [of config_Read app st p order]
      concurrent_run_panic_recovered(1) [of config_Read app st i p order]
      concurrent_run_panic_recovered(2) [of config_Read app st i p order before after]
      concurrent_first_failure_returned [of config_Read app st i e order before after]
    unfolding rec by blast
qed

theorem panic_is_recovered_witness:
  "(rbs app_builder_panics_value = [] @ builder_of (Panic (PanicVal ''hello'')) # []
    \<and> PreRunE_body test_config_Read (app_builder_panics_value\<lparr>rbs := []\<rparr>)
          (buildCmd app_builder_panics_value)
        = (Return None,
           \<lparr>rs = [None], bc = \<lparr>Config = None, Finalizers = [finalizeOtel]\<rparr>,
            tracerProvider = \<lparr>Shutdown = None\<rparr>\<rparr>)
    \<and> result (builder_of (Panic (PanicVal ''hello''))
                \<lparr>Config = None, Finalizers = [finalizeOtel]\<rparr>) = Panic (PanicVal ''hello'')
    \<and> App_Run test_config_Read [] app_builder_panics_value
        = \<lparr>returned = Return (Some (panicError ''hello'')), invoked = []\<rparr>)
   \<and> (PreRunE test_config_Read app_run_panics (buildCmd app_run_panics)
        = (None,
           \<lparr>rs = [Some (Panic (PanicErr (Foreign 1)))],
            bc = \<lparr>Config = None, Finalizers = [finalizeOtel]\<rparr>,
            tracerProvider = \<lparr>Shutdown = None\<rparr>\<rparr>)
    \<and> App_Run test_config_Read [] app_run_panics
        = \<lparr>returned = Return (Some (Foreign 1)), invoked = [0]\<rparr>)
   \<and> (PreRunE test_config_Read app_one_of_two_panics (buildCmd app_one_of_two_panics)
        = (None,
           \<lparr>rs = [Some (Panic (PanicErr (Foreign 1))), Some (Return None)],
            bc = \<lparr>Config = None, Finalizers = [finalizeOtel]\<rparr>,
            tracerProvider = \<lparr>Shutdown = None\<rparr>\<rparr>)
    \<and> (0::nat) \<in> set [1, 0]
    \<and> [1, 0] = [1] @ (0::nat) # []
    \<and> errRecover (call_Run ([Some (Panic (PanicErr (Foreign (1::nat)))), Some (Return None)] ! 1))
        = (None :: (nat, string) err)
    \<and> returned (App_Run test_config_Read [1, 0] app_one_of_two_panics)
        = Return (Some (Foreign 1)))
   \<and> (PreRunE test_config_Read app_one_of_two_fails (buildCmd app_one_of_two_fails)
        = (None,
           \<lparr>rs = [Some (Return (Some (Foreign 1))), Some (Return None)],
            bc = \<lparr>Config = None, Finalizers = [finalizeOtel]\<rparr>,
            tracerProvider = \<lparr>Shutdown = None\<rparr>\<rparr>)
    \<and> errRecover (call_Run ([Some (Return (Some (Foreign (1::nat)))), Some (Return None)] ! 0))
        = (Some (Foreign 1) :: (nat, string) err)
    \<and> [0, 1] = [] @ (0::nat) # [1]
    \<and> returned (App_Run test_config_Read [0, 1] app_one_of_two_fails)
        = Return (Some (Foreign 1)))"
proof -
  let ?bc = "\<lparr>Config = None, Finalizers = [finalizeOtel]\<rparr> :: (nat, string, unit) BuildContext"
  let ?tp = "\<lparr>Shutdown = None\<rparr> :: (nat, string) TracerProvider"
  let ?st0 = "\<lparr>rs = [None], bc = ?bc, tracerProvider = ?tp\<rparr>"
  let ?st1 = "\<lparr>rs = [Some (Panic (PanicErr (Foreign 1)))], bc = ?bc, tracerProvider = ?tp\<rparr>"
  let ?st2 = "\<lparr>rs = [Some (Panic (PanicErr (Foreign 1))), Some (Return None)],
               bc = ?bc, tracerProvider = ?tp\<rparr>"
  have a1: "rbs app_builder_panics_value = [] @ builder_of (Panic (PanicVal ''hello'')) # []"
    by (simp add: app_builder_panics_value_def New_def WithRuntimeBuilderFunc_def)
  have a2: "PreRunE_body test_config_Read (app_builder_panics_value\<lparr>rbs := []\<rparr>)
              (buildCmd app_builder_panics_value) = (Return None, ?st0)"
    by (simp add: PreRunE_body_def init_and_build_def app_builder_panics_value_def New_def
        WithRuntimeBuilderFunc_def buildCmd_def test_Noop_def RegisterFinalizers_def)
  have a3: "result (builder_of (Panic (PanicVal ''hello'')) (bc ?st0)) = Panic (PanicVal ''hello'')"
    by (simp add: builder_of_def)
  have b1: "PreRunE test_config_Read app_run_panics (buildCmd app_run_panics) = (None, ?st1)"
    by (simp add: PreRunE_def PreRunE_body_def init_and_build_def app_run_panics_def New_def
        WithRuntimeBuilderFunc_def buildCmd_def test_Noop_def RegisterFinalizers_def
        builder_of_def)
  have c1: "PreRunE test_config_Read app_one_of_two_panics (buildCmd app_one_of_two_panics)
              = (None, ?st2)"
    by (simp add: PreRunE_def PreRunE_body_def init_and_build_def app_one_of_two_panics_def
        New_def WithRuntimeBuilderFunc_def buildCmd_def test_Noop_def RegisterFinalizers_def
        builder_of_def)
  have c2: "\<forall>j\<in>set [1::nat]. j < length (rs ?st2) \<longrightarrow>
              errRecover (call_Run (rs ?st2 ! j)) = None"
    by (simp add: call_Run_def)
  have r1: "App_Run test_config_Read [] app_builder_panics_value
              = \<lparr>returned = Return (Some (panicError ''hello'')), invoked = []\<rparr>"
    using panic_is_recovered
            [of app_builder_panics_value "[]" "builder_of (Panic (PanicVal ''hello''))" "[]"
                test_config_Read ?st0 "PanicVal ''hello''" "[]"]
          a1 a2 a3
    by simp
  have r2: "App_Run test_config_Read [] app_run_panics
              = \<lparr>returned = Return (Some (Foreign 1)), invoked = [0]\<rparr>"
    using panic_is_recovered
            [of app_run_panics _ _ _ test_config_Read _ "PanicErr (Foreign 1)" "[]" ?st1]
          b1
    by simp
  have r3: "returned (App_Run test_config_Read [1, 0] app_one_of_two_panics)
              = Return (Some (Foreign 1))"
    using panic_is_recovered
            [of app_one_of_two_panics _ _ _ test_config_Read _ "PanicErr (Foreign 1)" "[1, 0]"
                ?st2 0 "[1]" "[]"]
          c1 c2
    by simp
  let ?st3 = "\<lparr>rs = [Some (Return (Some (Foreign 1))), Some (Return None)],
               bc = ?bc, tracerProvider = ?tp\<rparr>"
  have d1: "PreRunE test_config_Read app_one_of_two_fails (buildCmd app_one_of_two_fails)
              = (None, ?st3)"
    by (simp add: PreRunE_def PreRunE_body_def init_and_build_def app_one_of_two_fails_def
        New_def WithRuntimeBuilderFunc_def buildCmd_def test_Noop_def RegisterFinalizers_def
        builder_of_def)
  have d2: "errRecover (call_Run (rs ?st3 ! 0)) = Some (Foreign 1)"
    by (simp add: call_Run_def)
  have r4: "returned (App_Run test_config_Read [0, 1] app_one_of_two_fails)
              = Return (Some (Foreign 1))"
    using panic_is_recovered
            [of app_one_of_two_fails _ _ _ test_config_Read _ _ "[0, 1]"
                ?st3 0 "[]" "[1]" "Foreign 1"]
          d1 d2
    by simp
  show ?thesis
    using a1 a2 a3 b1 c1 c2 r1 r2 r3 d1 d2 r4 by simp
qed

text \<open>
  C9 as stated fails when two runtimes panic with different errors: whichever of the
  two returns first, \<open>App.Run\<close> returns that runtime's error, and the error with
  which the other runtime panicked is not returned.
\<close>

theorem panic_value_returned_counterexample:
  "PreRunE test_config_Read app_both_panic (buildCmd app_both_panic)
     = (None,
        \<lparr>rs = [Some (Panic (PanicErr (Foreign 1))), Some (Panic (PanicErr (Foreign 2)))],
         bc = \<lparr>Config = None, Finalizers = [finalizeOtel]\<rparr>,
         tracerProvider = \<lparr>Shutdown = None\<rparr>\<rparr>)
   \<and> returned (App_Run test_config_Read [0, 1] app_both_panic) = Return (Some (Foreign 1))
   \<and> returned (App_Run test_config_Read [0, 1] app_both_panic) \<noteq> Return (Some (Foreign 2))
   \<and> returned (App_Run test_config_Read [1, 0] app_both_panic) = Return (Some (Foreign 2))
   \<and> returned (App_Run test_config_Read [1, 0] app_both_panic) \<noteq> Return (Some (Foreign 1))"
  by (simp add: App_Run_def RunE_def RunE_body_def call_Run_def
        PreRunE_def PreRunE_body_def init_and_build_def app_both_panic_def
        New_def WithRuntimeBuilderFunc_def buildCmd_def test_Noop_def RegisterFinalizers_def
        builder_of_def)

section \<open>Properties of the Sequential runtime\<close>

subsection \<open>Runs and their calls\<close>

lemma after_calls_simps:
  "calls (after_calls cs f) = cs @ calls f"
  "terminal (after_calls cs f) = terminal f"
  "world (after_calls cs f) = world f"
  by (simp_all add: after_calls_def)

lemma Sequential_Run_one_at_a_time:
  "Sequential_Run fuel rt ctx s = Some fin \<Longrightarrow> one_at_a_time (calls fin)"
proof (induction fuel arbitrary: s fin)
  case 0
  then show ?case by simp
next
  case (Suc fuel)
  then show ?case
    by (auto simp: after_calls_simps split: if_splits prod.splits sum.splits option.splits)
qed

lemma Sequential_Run_processed_consumed:
  "Sequential_Run fuel rt ctx s = Some fin \<Longrightarrow> processed (calls fin) = consumed (calls fin)"
proof (induction fuel arbitrary: s fin)
  case 0
  then show ?case by simp
next
  case (Suc fuel)
  then show ?case
    by (auto simp: after_calls_simps split: if_splits prod.splits sum.splits option.splits)
qed

lemma from_list_step:
  "Sequential_Run (Suc fuel) (Sequential isCancel (from_list eos) (on_world f))
     (\<lambda>s. dn (snd s)) (x # xs, w) =
   (if dn w then Some \<lparr>terminal = None, world = (x # xs, w), calls = []\<rparr>
    else case f x w of
      (Some err, w1) \<Rightarrow>
        Some \<lparr>terminal = Some err, world = (xs, w1),
              calls = [Consumed (Inr x), Processed x (Some err)]\<rparr>
    | (None, w1) \<Rightarrow>
        map_option (after_calls [Consumed (Inr x), Processed x None])
          (Sequential_Run fuel (Sequential isCancel (from_list eos) (on_world f))
             (\<lambda>s. dn (snd s)) (xs, w1)))"
  by (simp add: Sequential_def from_list_def on_world_def split: prod.split option.split)

lemma from_list_end:
  "Sequential_Run (Suc fuel) (Sequential isCancel (from_list eos) (on_world f))
     (\<lambda>s. dn (snd s)) ([], w) =
   (if dn w then Some \<lparr>terminal = None, world = ([], w), calls = []\<rparr>
    else Some \<lparr>terminal = (if isCancel eos then None else Some eos), world = ([], w),
               calls = [Consumed (Inl eos)]\<rparr>)"
  by (simp add: Sequential_def from_list_def)

lemma from_list_returns:
  "\<exists>fin. Sequential_Run (Suc (length xs)) (Sequential isCancel (from_list eos) (on_world f))
            (\<lambda>s. dn (snd s)) (xs, w) = Some fin
         \<and> (\<exists>rest. xs = processed (calls fin) @ rest)"
proof -
  define rt where "rt = Sequential isCancel (from_list eos) (on_world f)"
  define ctx where "ctx = (\<lambda>s :: 'a list \<times> 'c. dn (snd s))"
  have "\<exists>fin. Sequential_Run (Suc (length xs)) rt ctx (xs, w) = Some fin
         \<and> (\<exists>rest. xs = processed (calls fin) @ rest)"
  proof (induction xs arbitrary: w)
    case Nil
    have "Sequential_Run (Suc 0) rt ctx ([], w) =
      (if dn w then Some \<lparr>terminal = None, world = ([], w), calls = []\<rparr>
       else Some \<lparr>terminal = (if isCancel eos then None else Some eos), world = ([], w),
               calls = [Consumed (Inl eos)]\<rparr>)"
      unfolding rt_def ctx_def by (rule from_list_end)
    then show ?case
      by (simp del: Sequential_Run.simps)
  next
    case (Cons x xs)
    obtain r w1 where f: "f x w = (r, w1)" by (cases "f x w")
    from Cons.IH [of w1] obtain fin rest where
      fin: "Sequential_Run (Suc (length xs)) rt ctx (xs, w1) = Some fin"
      and rest: "xs = processed (calls fin) @ rest"
      by blast
    have step: "Sequential_Run (Suc (Suc (length xs))) rt ctx (x # xs, w) =
      (if dn w then Some \<lparr>terminal = None, world = (x # xs, w), calls = []\<rparr>
       else case f x w of
         (Some err, w1) \<Rightarrow>
           Some \<lparr>terminal = Some err, world = (xs, w1),
              calls = [Consumed (Inr x), Processed x (Some err)]\<rparr>
       | (None, w1) \<Rightarrow>
           map_option (after_calls [Consumed (Inr x), Processed x None])
             (Sequential_Run (Suc (length xs)) rt ctx (xs, w1)))"
      unfolding rt_def ctx_def by (rule from_list_step)
    show ?case
    proof (cases "dn w")
      case True
      then show ?thesis
        using step by (simp del: Sequential_Run.simps)
    next
      case False
      show ?thesis
      proof (cases r)
        case None
        have "x # xs = processed (calls (after_calls [Consumed (Inr x), Processed x None] fin)) @ rest"
          using rest by (simp add: after_calls_simps)
        moreover have "Sequential_Run (Suc (Suc (length xs))) rt ctx (x # xs, w) =
            Some (after_calls [Consumed (Inr x), Processed x None] fin)"
          using step False f None fin by (simp del: Sequential_Run.simps)
        ultimately show ?thesis
          by (metis length_Cons)
      next
        case (Some err)
        then show ?thesis
          using step False f by (simp del: Sequential_Run.simps)
      qed
    qed
  qed
  then show ?thesis
    unfolding rt_def ctx_def .
qed

lemma from_list_all_processed:
  assumes "isCancel eos" and "\<forall>x w. fst (f x w) = None" and "\<forall>w. \<not> dn w"
  shows "Sequential_Run (Suc (length xs)) (Sequential isCancel (from_list eos) (on_world f))
            (\<lambda>s. dn (snd s)) (xs, w) =
         Some \<lparr>terminal = None, world = ([], fold (\<lambda>x w. snd (f x w)) xs w),
               calls = concat (map (\<lambda>x. [Consumed (Inr x), Processed x None]) xs)
                         @ [Consumed (Inl eos)]\<rparr>"
proof -
  define rt where "rt = Sequential isCancel (from_list eos) (on_world f)"
  define ctx where "ctx = (\<lambda>s :: 'b list \<times> 'c. dn (snd s))"
  have "Sequential_Run (Suc (length xs)) rt ctx (xs, w) =
         Some \<lparr>terminal = None, world = ([], fold (\<lambda>x w. snd (f x w)) xs w),
               calls = concat (map (\<lambda>x. [Consumed (Inr x), Processed x None]) xs)
                         @ [Consumed (Inl eos)]\<rparr>"
  proof (induction xs arbitrary: w)
    case Nil
    have "Sequential_Run (Suc 0) rt ctx ([], w) =
      (if dn w then Some \<lparr>terminal = None, world = ([], w), calls = []\<rparr>
       else Some \<lparr>terminal = (if isCancel eos then None else Some eos), world = ([], w),
               calls = [Consumed (Inl eos)]\<rparr>)"
      unfolding rt_def ctx_def by (rule from_list_end)
    then show ?case
      using assms(1,3) by (simp del: Sequential_Run.simps)
  next
    case (Cons x xs)
    obtain w1 where f: "f x w = (None, w1)"
      using assms(2) by (metis prod.collapse)
    have step: "Sequential_Run (Suc (Suc (length xs))) rt ctx (x # xs, w) =
      (if dn w then Some \<lparr>terminal = None, world = (x # xs, w), calls = []\<rparr>
       else case f x w of
         (Some err, w1) \<Rightarrow>
           Some \<lparr>terminal = Some err, world = (xs, w1),
              calls = [Consumed (Inr x), Processed x (Some err)]\<rparr>
       | (None, w1) \<Rightarrow>
           map_option (after_calls [Consumed (Inr x), Processed x None])
             (Sequential_Run (Suc (length xs)) rt ctx (xs, w1)))"
      unfolding rt_def ctx_def by (rule from_list_step)
    show ?case
      using assms(3) f step Cons.IH [of w1]
      by (simp add: after_calls_def del: Sequential_Run.simps)
  qed
  then show ?thesis
    unfolding rt_def ctx_def .
qed




subsection \<open>The claims on the Sequential runtime\<close>

text \<open>
  C1. The Sequential runtime processes the items in exactly the order in which the
  Consumer produced them.
  (1) In every run that returns, each produced item is handed to \<open>Process\<close> by the
  very next call, and \<open>Consume\<close> is called again only after that \<open>Process\<close> call
  has returned: the items processed are the items produced, in the same order.
  (2) For a Consumer that produces a finite sequence \<open>xs\<close>, with any Processor and any
  context, the run returns within \<open>length xs + 1\<close> iterations and has processed an
  initial part of \<open>xs\<close>, in order.
  (3) If moreover the stream ends with a cancellation-class error, the Processor never
  fails and the context is never cancelled, the run returns nil, has processed exactly
  \<open>xs\<close>, and the effects of the Processor on its world are those of processing
  \<open>xs\<close> from left to right.
\<close>

theorem Sequential_processes_in_production_order:
  "(Sequential_Run fuel rt ctx s = Some fin
      \<longrightarrow> one_at_a_time (calls fin) \<and> processed (calls fin) = consumed (calls fin))
   \<and> (\<exists>fin'. Sequential_Run (Suc (length xs))
                (Sequential isCancel (from_list eos) (on_world f)) (\<lambda>s. dn (snd s)) (xs, w)
              = Some fin'
            \<and> (\<exists>rest. xs = processed (calls fin') @ rest))
   \<and> (isCancel eos \<and> (\<forall>x w. fst (f x w) = None) \<and> (\<forall>w. \<not> dn w)
      \<longrightarrow> Sequential_Run (Suc (length xs))
            (Sequential isCancel (from_list eos) (on_world f)) (\<lambda>s. dn (snd s)) (xs, w)
          = Some \<lparr>terminal = None, world = ([], fold (\<lambda>x w. snd (f x w)) xs w),
                  calls = concat (map (\<lambda>x. [Consumed (Inr x), Processed x None]) xs)
                            @ [Consumed (Inl eos)]\<rparr>)"
  using Sequential_Run_one_at_a_time [of fuel rt ctx s fin]
    Sequential_Run_processed_consumed [of fuel rt ctx s fin]
    from_list_returns [of xs isCancel eos f dn w]
    from_list_all_processed [of isCancel eos f dn xs w]
  by blast

theorem Sequential_processes_in_production_order_witness:
  "Sequential_Run 7 example_rt cancelled example_start =
     Some \<lparr>terminal = None,
           world = \<lparr>n = 6, cancelled = True, printed = [1, 2, 3, 4, 5]\<rparr>,
           calls = [Consumed (Inr 1), Processed 1 None, Consumed (Inr 2), Processed 2 None,
                    Consumed (Inr 3), Processed 3 None, Consumed (Inr 4), Processed 4 None,
                    Consumed (Inr 5), Processed 5 None, Consumed (Inr 6), Processed 6 None]\<rparr>
   \<and> one_at_a_time
        [Consumed (Inr 1), Processed 1 None, Consumed (Inr 2), Processed 2 None,
         Consumed (Inr 3), Processed 3 None, Consumed (Inr 4), Processed 4 None,
         Consumed (Inr 5), Processed 5 None, Consumed (Inr (6::int)),
         Processed 6 (None :: string option)]
   \<and> processed
        [Consumed (Inr 1), Processed 1 None, Consumed (Inr 2), Processed 2 None,
         Consumed (Inr 3), Processed 3 None, Consumed (Inr 4), Processed 4 None,
         Consumed (Inr 5), Processed 5 None, Consumed (Inr (6::int)),
         Processed 6 (None :: string option)] = [1, 2, 3, 4, 5, 6]
   \<and> (\<forall>x w. fst (println x w) = None)
   \<and> Sequential_Run 6 scenario_A (\<lambda>s. False) ([1, 2, 3, 4, 5], [])
       = Some \<lparr>terminal = None, world = ([], [1, 2, 3, 4, 5]),
               calls = [Consumed (Inr 1), Processed 1 None, Consumed (Inr 2), Processed 2 None,
                        Consumed (Inr 3), Processed 3 None, Consumed (Inr 4), Processed 4 None,
                        Consumed (Inr 5), Processed 5 None, Consumed (Inl context_Canceled)]\<rparr>"
proof -
  let ?cs = "[Consumed (Inr 1), Processed 1 None, Consumed (Inr 2), Processed 2 None,
              Consumed (Inr 3), Processed 3 None, Consumed (Inr 4), Processed 4 None,
              Consumed (Inr 5), Processed 5 None, Consumed (Inr (6::int)),
              Processed 6 (None :: string option)]"
  let ?fin = "\<lparr>terminal = None,
               world = \<lparr>n = 6, cancelled = True, printed = [1, 2, 3, 4, 5]\<rparr>,
               calls = ?cs\<rparr>"
  have run: "Sequential_Run 7 example_rt cancelled example_start = Some ?fin"
    by (simp add: eval_nat_numeral example_rt_def example_start_def Sequential_def
          example_c_def example_p_def consumerFunc_def processorFunc_def after_calls_def)
  have order: "one_at_a_time (calls ?fin) \<and> processed (calls ?fin) = consumed (calls ?fin)"
    using Sequential_processes_in_production_order
            [of 7 example_rt cancelled example_start ?fin, THEN conjunct1, rule_format, OF run]
    .
  have h1: "(\<lambda>err. err = context_Canceled) context_Canceled"
    by simp
  have h2: "\<forall>x w. fst (println x w) = None"
    by (simp add: println_def)
  have h3: "\<forall>w :: int list. \<not> (\<lambda>w. False) w"
    by simp
  have "Sequential_Run (Suc (length [1, 2, 3, 4, 5 :: int]))
          (Sequential (\<lambda>err. err = context_Canceled) (from_list context_Canceled)
             (on_world println))
          (\<lambda>s. (\<lambda>w. False) (snd s)) ([1, 2, 3, 4, 5], [])
        = Some \<lparr>terminal = None,
                world = ([], fold (\<lambda>x w. snd (println x w)) [1, 2, 3, 4, 5] []),
                calls = concat (map (\<lambda>x. [Consumed (Inr x), Processed x None]) [1, 2, 3, 4, 5])
                          @ [Consumed (Inl context_Canceled)]\<rparr>"
    by (rule Sequential_processes_in_production_order
            [of _ _ _ _ _ "[1, 2, 3, 4, 5]" "\<lambda>err. err = context_Canceled" context_Canceled
                println "\<lambda>w. False" "[]", THEN conjunct2, THEN conjunct2, rule_format,
             OF conjI [OF h1 conjI [OF h2 h3]]])
  moreover have "Suc (length [1, 2, 3, 4, 5 :: int]) = 6"
    by simp
  ultimately have scenario:
    "Sequential_Run 6 scenario_A (\<lambda>s. False) ([1, 2, 3, 4, 5], [])
       = Some \<lparr>terminal = None, world = ([], [1, 2, 3, 4, 5]),
               calls = [Consumed (Inr 1), Processed 1 None, Consumed (Inr 2), Processed 2 None,
                        Consumed (Inr 3), Processed 3 None, Consumed (Inr 4), Processed 4 None,
                        Consumed (Inr 5), Processed 5 None, Consumed (Inl context_Canceled)]\<rparr>"
    by (simp add: scenario_A_def println_def eval_nat_numeral del: Sequential_Run.simps)
  show ?thesis
    using run order h2 scenario by (simp del: Sequential_Run.simps)
qed




end
